theory Spec2Isabelle
  imports Main "HOL-Library.AList"
begin

section \<open>Python values\<close>

text \<open>
  A Python \<open>str\<close> is a sequence of Unicode code points, so a character is a natural
  number and a string a list of them. The regular expression of the tokenizer names
  Cyrillic ranges and \<open>str.split\<close> knows the Unicode white space, neither of which
  fits an 8-bit character. \<open>py\<close> reads an ASCII literal as such a string.
\<close>

type_synonym pychar = nat
type_synonym pystr = "pychar list"

abbreviation (input) py :: "string \<Rightarrow> pystr" where
  "py s \<equiv> map of_char s"

text \<open>
  The exceptions that occur. All but the last two are instances of \<open>Exception\<close>;
  \<open>SystemExit\<close> and \<open>KeyboardInterrupt\<close> derive from \<open>BaseException\<close> only, which
  \<open>except Exception\<close> does not catch.
\<close>

datatype exc =
    IndexError
  | KeyError pystr
  | EOFError
  | TypeError
  | ArgumentParserError pystr
  | ArgumentError pystr
  | Exception pystr
  | SystemExit int
  | KeyboardInterrupt

fun is_Exception :: "exc \<Rightarrow> bool" where
  "is_Exception (SystemExit code) = False"
| "is_Exception KeyboardInterrupt = False"
| "is_Exception ex = True"

text \<open>Values bound to arguments and given as keyword arguments.\<close>

datatype pyval = PNone | PBool bool | PInt int | PStr pystr | PType pystr

type_synonym kwargs = "(pystr \<times> pyval) list"

section \<open>The tokenizer: \<open>QRConsole.extract_args\<close>\<close>

text \<open>
  The character class \<open>[A-Za-z0-9\<dots>_ -]\<close> of the pattern, with its two Cyrillic ranges
  U+0430 to U+044F and U+0410 to U+042F.
\<close>

definition allowed :: "pychar \<Rightarrow> bool" where
  "allowed c \<longleftrightarrow>
     (65 \<le> c \<and> c \<le> 90) \<or> (97 \<le> c \<and> c \<le> 122) \<or> (48 \<le> c \<and> c \<le> 57) \<or>
     (1072 \<le> c \<and> c \<le> 1103) \<or> (1040 \<le> c \<and> c \<le> 1071) \<or>
     c = 95 \<or> c = 32 \<or> c = 45"

text \<open>The characters \<open>str.split()\<close> splits at: those for which \<open>str.isspace\<close> holds.\<close>

definition isspace :: "pychar \<Rightarrow> bool" where
  "isspace c \<longleftrightarrow>
     (9 \<le> c \<and> c \<le> 13) \<or> (28 \<le> c \<and> c \<le> 32) \<or> c = 133 \<or> c = 160 \<or>
     c = 5760 \<or> (8192 \<le> c \<and> c \<le> 8202) \<or> c = 8232 \<or> c = 8233 \<or>
     c = 8239 \<or> c = 8287 \<or> c = 12288"

definition dq :: pychar where
  "dq = 34"

text \<open>
  One attempt to match the pattern \<open>"([\<dots>]+)"\<close> at the start of a string: an opening
  quote, the longest run of allowed characters, which must not be empty, and a closing
  quote. The quote is not an allowed character, so no shorter run can match either.
  The result is the group and the text after the match.
\<close>

definition match_quoted :: "pystr \<Rightarrow> (pystr \<times> pystr) option" where
  "match_quoted s =
     (case s of
        [] \<Rightarrow> None
      | c # cs \<Rightarrow>
          if c \<noteq> dq then None
          else (case dropWhile allowed cs of
                  [] \<Rightarrow> None
                | d # rest \<Rightarrow>
                    if takeWhile allowed cs \<noteq> [] \<and> d = dq
                    then Some (takeWhile allowed cs, rest) else None))"

lemma match_quoted_shorter:
  assumes "match_quoted s = Some (g, rest)"
  shows "length rest < length s"
proof -
  from assms obtain c cs where s: "s = c # cs"
    by (cases s) (auto simp: match_quoted_def)
  from assms s obtain d where "dropWhile allowed cs = d # rest"
    by (auto simp: match_quoted_def split: if_splits list.splits)
  then have "length rest < length (dropWhile allowed cs)"
    by simp
  also have "\<dots> \<le> length cs"
    by (rule length_dropWhile_le)
  finally show ?thesis
    using s by simp
qed

text \<open>
  \<open>re.findall(p, s)\<close>: the groups of the matches found scanning from the left, each
  search resuming after the previous match.
\<close>

function re_findall :: "pystr \<Rightarrow> pystr list" where
  "re_findall [] = []"
| "re_findall (c # cs) =
     (case match_quoted (c # cs) of
        Some (g, rest) \<Rightarrow> g # re_findall rest
      | None \<Rightarrow> re_findall cs)"
  by pat_completeness auto
termination
  by (relation "measure length") (auto dest: match_quoted_shorter)

text \<open>
  \<open>s.replace(old, new)\<close>: every occurrence of \<open>old\<close>, found from the left and not
  overlapping, becomes \<open>new\<close>; an empty \<open>old\<close> occurs before every character and at
  the end.
\<close>

function str_replace :: "pystr \<Rightarrow> pystr \<Rightarrow> pystr \<Rightarrow> pystr" where
  "str_replace old new [] = (if old = [] then new else [])"
| "str_replace old new (c # cs) =
     (if old = [] then new @ c # str_replace old new cs
      else if take (length old) (c # cs) = old
           then new @ str_replace old new (drop (length old) (c # cs))
           else c # str_replace old new cs)"
  by pat_completeness auto
termination
  by (relation "measure (\<lambda>(old, new, s). length s)") (auto simp: Suc_le_eq)

text \<open>\<open>s.split()\<close>: the maximal runs of characters that are not white space.\<close>

function str_split :: "pystr \<Rightarrow> pystr list" where
  "str_split [] = []"
| "str_split (c # cs) =
     (if isspace c then str_split cs
      else (c # takeWhile (\<lambda>x. \<not> isspace x) cs)
             # str_split (dropWhile (\<lambda>x. \<not> isspace x) cs))"
  by pat_completeness auto
termination
  by (relation "measure length") (auto simp: less_Suc_eq_le length_dropWhile_le)

definition fill :: pystr where
  "fill = py ''$^$$^$''"

text \<open>
  The last loop of \<open>extract_args\<close>: \<open>i\<close> counts the sentinels met so far, and the
  \<open>i\<close>-th sentinel becomes \<open>b_args[i][1:-1]\<close>. Reading \<open>b_args[i]\<close> beyond the end of
  the list raises \<open>IndexError\<close>.
\<close>

fun restore :: "pystr list \<Rightarrow> nat \<Rightarrow> pystr list \<Rightarrow> exc + pystr list" where
  "restore b_args i [] = Inr []"
| "restore b_args i (a # as) =
     (if a = fill
      then (if i < length b_args
            then map_sum id ((#) (butlast (tl (b_args ! i)))) (restore b_args (Suc i) as)
            else Inl IndexError)
      else map_sum id ((#) a) (restore b_args i as))"

definition extract_args :: "pystr \<Rightarrow> exc + pystr list" where
  "extract_args s =
     (let b_args = map (\<lambda>x. dq # x @ [dq]) (re_findall s);
          s' = foldl (\<lambda>t b. str_replace b fill t) s b_args
      in restore b_args 0 (str_split s'))"

subsection \<open>Lines of words and quoted spans\<close>











section \<open>Commands: \<open>QRCommand\<close>\<close>

text \<open>
  The handler of a command is a Python function. Its effects are not modelled beyond
  the fact that it was called (see \<open>Invoke\<close> below); it returns normally (\<open>None\<close>) or
  raises. \<open>arguments\<close> is a \<open>dict\<close>: an association list in insertion order with
  distinct keys, written with \<open>AList.update\<close>, which replaces the value of a key that
  is present where it stands and appends a new key.
\<close>

type_synonym handler = "pyval list \<Rightarrow> exc option"

record qrcommand =
  name :: pystr
  help_text :: "pystr option"
  arguments :: "(pystr \<times> pystr list \<times> kwargs) list"
  func :: "handler option"

definition QRCommand :: "pystr \<Rightarrow> handler option \<Rightarrow> pystr option \<Rightarrow> qrcommand" where
  "QRCommand nm f h = \<lparr>name = nm, help_text = h, arguments = [], func = f\<rparr>"

definition dash :: pychar where
  "dash = 45"

text \<open>
  \<open>add_argument(name, *args, **kwargs)\<close>. \<open>name[0]\<close> raises \<open>IndexError\<close> on the empty
  string. The result is the command itself, updated.
\<close>

definition add_argument :: "pystr \<Rightarrow> pystr list \<Rightarrow> kwargs \<Rightarrow> qrcommand \<Rightarrow> exc + qrcommand" where
  "add_argument nm args kw self =
     (case nm of
        [] \<Rightarrow> Inl IndexError
      | c # _ \<Rightarrow>
          if c \<noteq> dash
          then Inr (self\<lparr>arguments := AList.update nm (nm # args, kw) (arguments self)\<rparr>)
          else
            let bare_name = (if take 2 nm = [dash, dash] then drop 2 nm else drop 1 nm);
                short_name = dash # bare_name;
                full_name = dash # dash # bare_name;
                args' = [short_name, full_name] @ args
            in Inr (self\<lparr>arguments :=
                      AList.update bare_name (nm # args', kw) (arguments self)\<rparr>))"

definition set_func :: "handler \<Rightarrow> qrcommand \<Rightarrow> qrcommand" where
  "set_func f self = self\<lparr>func := Some f\<rparr>"

text \<open>
  The key under which \<open>add_argument\<close> stores a name, and the names it stores there:
  the values of \<open>bare_name\<close> and of \<open>[name] + list(args)\<close> on either branch.
\<close>

definition bare_name :: "pystr \<Rightarrow> pystr" where
  "bare_name nm =
     (if take 1 nm \<noteq> [dash] then nm
      else if take 2 nm = [dash, dash] then drop 2 nm else drop 1 nm)"

definition option_strings :: "pystr \<Rightarrow> pystr list \<Rightarrow> pystr list" where
  "option_strings nm args =
     (if take 1 nm \<noteq> [dash] then nm # args
      else nm # (dash # bare_name nm) # (dash # dash # bare_name nm) # args)"

section \<open>The console: \<open>QRConsole\<close>\<close>

subsection \<open>The argparse library\<close>

text \<open>
  The console keeps an \<open>argparse\<close> parser and configures it through three calls:
  \<open>add_parser\<close> on the sub-parsers object, then \<open>add_argument\<close> and \<open>set_defaults\<close>
  on the parser that \<open>add_parser\<close> returned. The library is not part of the
  repository. Its state is kept as the list of the calls made so far, and its
  behaviour is a parameter: whether a call raises, given the calls before it, and what
  \<open>parse_args\<close> does on a token list. \<open>QRHelpAction\<close>, which the module installs as the
  help action of every parser, prints the help of the parser that meets the option and
  lets parsing go on; \<open>parse_args\<close> reports these parsers in order, followed by the
  exception it raised or the namespace it built.
\<close>

datatype ap_call =
    Add_parser pystr pystr "pystr option"
  | Add_argument "pystr list" kwargs
  | Set_defaults qrcommand

datatype parser_ref = Main_parser | Sub_parser pystr

record namespace =
  ns_vals :: "(pystr \<times> pyval) list"
  ns_func :: "qrcommand option"

record argparse =
  raises :: "ap_call list \<Rightarrow> ap_call \<Rightarrow> exc option"
  parse_args :: "ap_call list \<Rightarrow> pystr list \<Rightarrow> parser_ref list \<times> (exc + namespace)"

subsection \<open>Effects\<close>

text \<open>
  What a run of the console does to the outside, in order: the prompt written by
  \<open>input('?>')\<close>, a line printed, the help of a parser printed by \<open>QRHelpAction\<close>, the
  call of a command's handler on its values, the exception printed in red, and the
  reset of the style.
\<close>

datatype effect =
    Prompt
  | Print pystr
  | Help parser_ref
  | Invoke pystr "pyval list"
  | Error exc
  | Reset

record qrconsole =
  parser :: "ap_call list"
  commands :: "qrcommand list"
  hello :: "pystr option"
  throw_errors :: bool

definition print_hello :: "pystr option \<Rightarrow> effect list" where
  "print_hello h =
     (case h of None \<Rightarrow> [] | Some t \<Rightarrow> if t \<noteq> [] then [Print t] else [])
     @ [Print (py ''Type '-h' or '--help' to get more info''), Print (py ''Enter commands:'')]"

definition QRConsole :: "pystr option \<Rightarrow> bool \<Rightarrow> qrconsole \<times> effect list" where
  "QRConsole h throw =
     (\<lparr>parser = [], commands = [], hello = h, throw_errors = throw\<rparr>, print_hello h)"

subsection \<open>\<open>add_command\<close>\<close>

text \<open>
  A call of the library is recorded whether it raises or not. The loop over
  \<open>cmd.arguments.values()\<close> stops at the first \<open>add_argument\<close> that raises.
\<close>

fun add_arguments ::
  "argparse \<Rightarrow> ap_call list \<Rightarrow> (pystr list \<times> kwargs) list \<Rightarrow> ap_call list \<times> exc option" where
  "add_arguments ap p [] = (p, None)"
| "add_arguments ap p ((args, kw) # rest) =
     (case raises ap p (Add_argument args kw) of
        Some ex \<Rightarrow> (p @ [Add_argument args kw], Some ex)
      | None \<Rightarrow> add_arguments ap (p @ [Add_argument args kw]) rest)"

definition no_function_set :: "pystr \<Rightarrow> pystr" where
  "no_function_set nm = py ''command '' @ [39] @ nm @ [39] @ py '' has no function set!''"

text \<open>
  The result is the console after the call and the exception the call raised, if any.
\<close>

definition add_command :: "argparse \<Rightarrow> qrconsole \<Rightarrow> qrcommand \<Rightarrow> qrconsole \<times> exc option" where
  "add_command ap self cmd =
     (if func cmd = None then (self, Some (Exception (no_function_set (name cmd))))
      else
        let c1 = Add_parser (name cmd) (name cmd) (help_text cmd);
            p1 = parser self @ [c1]
        in case raises ap (parser self) c1 of
             Some ex \<Rightarrow> (self\<lparr>parser := p1\<rparr>, Some ex)
           | None \<Rightarrow>
               (case add_arguments ap p1 (map snd (arguments cmd)) of
                  (p2, Some ex) \<Rightarrow> (self\<lparr>parser := p2\<rparr>, Some ex)
                | (p2, None) \<Rightarrow>
                    (case raises ap p2 (Set_defaults cmd) of
                       Some ex \<Rightarrow> (self\<lparr>parser := p2 @ [Set_defaults cmd]\<rparr>, Some ex)
                     | None \<Rightarrow>
                         (self\<lparr>parser := p2 @ [Set_defaults cmd],
                               commands := commands self @ [cmd]\<rparr>, None))))"

subsection \<open>Dispatch: \<open>__read_line\<close> and \<open>run\<close>\<close>

text \<open>
  The function that \<open>add_command\<close> stores under \<open>func\<close>:
  \<open>lambda data: cmd.func(*extract_args(data))\<close>, where the inner \<open>extract_args\<close> reads
  \<open>data.__dict__[arg]\<close> for every key of \<open>cmd.arguments\<close> and raises \<open>KeyError\<close> at the
  first key that is missing.
\<close>

fun namespace_values :: "(pystr \<times> pyval) list \<Rightarrow> pystr list \<Rightarrow> exc + pyval list" where
  "namespace_values d [] = Inr []"
| "namespace_values d (k # ks) =
     (case map_of d k of
        None \<Rightarrow> Inl (KeyError k)
      | Some v \<Rightarrow> map_sum id ((#) v) (namespace_values d ks))"

definition call_func :: "qrcommand \<Rightarrow> namespace \<Rightarrow> effect list \<times> exc option" where
  "call_func cmd data =
     (case namespace_values (ns_vals data) (map fst (arguments cmd)) of
        Inl ex \<Rightarrow> ([], Some ex)
      | Inr vals \<Rightarrow>
          (case func cmd of
             None \<Rightarrow> ([], Some TypeError)
           | Some f \<Rightarrow> ([Invoke (name cmd) vals], f vals)))"

definition help_request :: "pystr list \<Rightarrow> bool" where
  "help_request s \<longleftrightarrow> py ''-h'' \<in> set s \<or> py ''--help'' \<in> set s"

text \<open>
  The body of the \<open>try\<close> of \<open>__read_line\<close>, on the line that \<open>input\<close> returns
  (\<open>None\<close> at the end of the input, where \<open>input\<close> raises \<open>EOFError\<close>). The result is
  the effects, the value of \<open>is_help\<close> when the body is left (\<open>None\<close> for Python's
  \<open>None\<close>) and the exception that left it, if any.
\<close>

definition read_line_try ::
  "argparse \<Rightarrow> qrconsole \<Rightarrow> pystr option \<Rightarrow> effect list \<times> bool option \<times> exc option" where
  "read_line_try ap self inp =
     (case inp of
        None \<Rightarrow> ([Prompt], None, Some EOFError)
      | Some line \<Rightarrow>
          (case extract_args line of
             Inl ex \<Rightarrow> ([Prompt], None, Some ex)
           | Inr s \<Rightarrow>
               (case parse_args ap (parser self) s of
                  (helps, Inl ex) \<Rightarrow>
                    (Prompt # map Help helps, Some (help_request s), Some ex)
                | (helps, Inr args) \<Rightarrow>
                    (case ns_func args of
                       None \<Rightarrow> (Prompt # map Help helps, Some (help_request s), None)
                     | Some cmd \<Rightarrow>
                         if \<not> help_request s
                         then (case call_func cmd args of
                                 (out, r) \<Rightarrow>
                                   (Prompt # map Help helps @ out, Some (help_request s), r))
                         else (Prompt # map Help helps, Some (help_request s), None)))))"

text \<open>
  \<open>__read_line\<close>: the body with its \<open>except Exception\<close> clause. \<open>not is_help\<close> holds
  for \<open>None\<close> and for \<open>False\<close>. \<open>sys.exit(1)\<close> raises \<open>SystemExit(1)\<close>. The result is
  the effects and the exception that leaves \<open>__read_line\<close>, if any.
\<close>

definition read_line :: "argparse \<Rightarrow> qrconsole \<Rightarrow> pystr option \<Rightarrow> effect list \<times> exc option" where
  "read_line ap self inp =
     (case read_line_try ap self inp of
        (out, is_help, None) \<Rightarrow> (out, None)
      | (out, is_help, Some ex) \<Rightarrow>
          if is_Exception ex
          then (if is_help \<noteq> Some True
                then (out @ [Error ex, Reset],
                      if throw_errors self then Some (SystemExit 1) else None)
                else (out, None))
          else (out, Some ex))"

text \<open>
  \<open>run\<close>: \<open>while True: self.__read_line()\<close>. The standard input is the function
  \<open>stdin\<close> from the number of a read to the line it returns, \<open>None\<close> at the end of the
  input. The loop is left only by an exception; \<open>run\<close> returns the effects up to
  there and that exception, and \<open>None\<close> when the loop goes on for ever.
\<close>

partial_function (option) run ::
  "argparse \<Rightarrow> qrconsole \<Rightarrow> (nat \<Rightarrow> pystr option) \<Rightarrow> nat \<Rightarrow> effect list
     \<Rightarrow> (effect list \<times> exc) option" where
  "run ap self stdin n acc =
     (case read_line ap self (stdin n) of
        (out, Some ex) \<Rightarrow> Some (acc @ out, ex)
      | (out, None) \<Rightarrow> run ap self stdin (Suc n) (acc @ out))"

section \<open>An example console\<close>

text \<open>
  The command \<open>add\<close> of the class docstring,
  \<open>QRCommand('add', lambda a, b: print(a + b), 'sum 2 integers')\<close> with its two
  positional arguments, as the two calls of \<open>add_argument\<close> leave it. The handler
  raises \<open>TypeError\<close> unless it gets two values that \<open>+\<close> accepts.
\<close>

fun numeric :: "pyval \<Rightarrow> bool" where
  "numeric (PInt i) = True"
| "numeric (PBool b) = True"
| "numeric v = False"

fun add_func :: handler where
  "add_func [PStr a, PStr b] = None"
| "add_func [a, b] = (if numeric a \<and> numeric b then None else Some TypeError)"
| "add_func vals = Some TypeError"

definition kw_int :: "string \<Rightarrow> kwargs" where
  "kw_int h = [(py ''type'', PType (py ''int'')), (py ''help'', PStr (py h))]"

definition example_add :: qrcommand where
  "example_add =
     \<lparr>name = py ''add'', help_text = Some (py ''sum 2 integers''),
      arguments = [(py ''a'', [py ''a''], kw_int ''1st arg''),
                   (py ''b'', [py ''b''], kw_int ''2nd arg'')],
      func = Some add_func\<rparr>"

text \<open>
  A second command of the name \<open>add\<close>, with another handler and no arguments, and a
  command whose handler leaves the process: \<open>QRCommand('quit', lambda: sys.exit(0))\<close>.
\<close>

fun add_func2 :: handler where
  "add_func2 vals = (if vals = [] then None else Some TypeError)"

definition example_add2 :: qrcommand where
  "example_add2 = QRCommand (py ''add'') (Some add_func2) None"

fun quit_func :: handler where
  "quit_func vals = (if vals = [] then Some (SystemExit 0) else Some TypeError)"

definition example_quit :: qrcommand where
  "example_quit = QRCommand (py ''quit'') (Some quit_func) None"

text \<open>
  A behaviour of the library for the examples. No configuration call raises: the
  \<open>add_parser\<close> of Python 3.6 to 3.10, the versions the package is declared for,
  stores the new parser under its name without looking for an earlier one of that
  name. \<open>sample_parse\<close> gives what \<open>parse_args\<close> answers, for a console with the
  commands \<open>add\<close> and \<open>quit\<close> above, on the lines used in the examples: a help option
  prints the help of the parser that meets it; a line without the two values of \<open>add\<close>
  ends in the error on the missing arguments; a first word that is no command, and a
  value that is no integer, end in an error as soon as they are read, before any
  option behind them. The messages on \<open>add\<close> are those of the transcript in
  \<open>setup.py\<close>. Every other line is given the answer of the empty line.
\<close>

definition required_a_b :: exc where
  "required_a_b = ArgumentParserError (py ''the following arguments are required: a, b'')"

definition invalid_choice :: "pystr \<Rightarrow> exc" where
  "invalid_choice t =
     ArgumentParserError
       (py ''invalid choice: '' @ [39] @ t @ [39] @ py '' (choose from 'add', 'quit')'')"

definition invalid_int :: "string \<Rightarrow> pystr \<Rightarrow> exc" where
  "invalid_int a t =
     ArgumentParserError (py ''argument '' @ py a @ py '': invalid int value: '' @ [39] @ t @ [39])"

definition sample_parse :: "ap_call list \<Rightarrow> pystr list \<Rightarrow> parser_ref list \<times> (exc + namespace)" where
  "sample_parse p s =
     (if s = [py ''add'', py ''1'', py ''2'']
      then ([], Inr \<lparr>ns_vals = [(py ''a'', PInt 1), (py ''b'', PInt 2)],
                     ns_func = Some example_add\<rparr>)
      else if s = [py ''add''] then ([], Inl required_a_b)
      else if s = [py ''add'', py ''-h''] then ([Sub_parser (py ''add'')], Inl required_a_b)
      else if s = [py ''add'', py ''x'', py ''-h''] then ([], Inl (invalid_int ''a'' (py ''x'')))
      else if s = [py ''-h'']
      then ([Main_parser], Inr \<lparr>ns_vals = [], ns_func = None\<rparr>)
      else if s = [py ''quit'']
      then ([], Inr \<lparr>ns_vals = [], ns_func = Some example_quit\<rparr>)
      else if s = [py ''frobnicate''] \<or> s = [py ''frobnicate'', py ''-h'']
      then ([], Inl (invalid_choice (py ''frobnicate'')))
      else ([], Inr \<lparr>ns_vals = [], ns_func = None\<rparr>))"

definition sample_argparse :: argparse where
  "sample_argparse = \<lparr>raises = (\<lambda>p c. None), parse_args = sample_parse\<rparr>"

text \<open>
  The same library with the \<open>add_parser\<close> of Python 3.11 and later, which raises
  \<open>ArgumentError\<close> when a parser of that name was added before.
\<close>

fun added_names :: "ap_call list \<Rightarrow> pystr list" where
  "added_names [] = []"
| "added_names (Add_parser n prog h # p) = n # added_names p"
| "added_names (c # p) = added_names p"

definition checking_argparse :: argparse where
  "checking_argparse =
     \<lparr>raises = (\<lambda>p c. case c of
                  Add_parser n prog h \<Rightarrow>
                    if n \<in> set (added_names p)
                    then Some (ArgumentError (py ''conflicting subparser: '' @ n)) else None
                | _ \<Rightarrow> None),
      parse_args = sample_parse\<rparr>"

definition example_console :: "bool \<Rightarrow> qrconsole" where
  "example_console throw =
     fst (add_command sample_argparse
            (fst (add_command sample_argparse (fst (QRConsole (Some (py ''hello'')) throw))
                    example_add))
            example_quit)"

text \<open>A standard input that is at its end, and one that gives the same line for ever.\<close>

definition eof_stdin :: "nat \<Rightarrow> pystr option" where
  "eof_stdin n = None"

definition repeat_stdin :: "pystr \<Rightarrow> nat \<Rightarrow> pystr option" where
  "repeat_stdin line n = Some line"

definition once_stdin :: "pystr \<Rightarrow> nat \<Rightarrow> pystr option" where
  "once_stdin line n = (if n = 0 then Some line else None)"

section \<open>The tokenizer\<close>

lemmas tokenizer_defs = extract_args_def match_quoted_def allowed_def isspace_def dq_def fill_def


lemma extract_args_say_hello_world_now:
  "extract_args (py ''say \"hello world\" now'') = Inr [py ''say'', py ''hello world'', py ''now'']"
  by (simp add: tokenizer_defs)

lemma extract_args_empty: "extract_args [] = Inr []"
  by (simp add: tokenizer_defs)

text \<open>
  A line without a quote has no quoted span and is split at white space; the last loop
  then fails exactly when one of the words is the sentinel.
\<close>

lemma match_quoted_no_quote: "dq \<notin> set s \<Longrightarrow> match_quoted s = None"
  by (cases s) (auto simp: match_quoted_def)

lemma re_findall_no_quote: "dq \<notin> set s \<Longrightarrow> re_findall s = []"
  by (induction s) (simp_all add: match_quoted_no_quote)

lemma restore_no_spans:
  "restore [] i ws = (if fill \<in> set ws then Inl IndexError else Inr ws)"
  by (induction ws) auto

lemma extract_args_no_quote:
  assumes "dq \<notin> set s"
  shows "extract_args s =
           (if fill \<in> set (str_split s) then Inl IndexError else Inr (str_split s))"
  using assms by (simp add: extract_args_def re_findall_no_quote restore_no_spans)

text \<open>
  The steps of \<open>extract_args\<close> on a line of words and quoted spans as described
  above: the pattern finds the spans in order, each replacement turns the spans of one
  content into the sentinel and nothing else, the split gives one word for every item,
  and the last loop puts the contents back in order.
\<close>

lemma allowed_dq [simp]: "\<not> allowed dq"
  by (simp add: allowed_def dq_def)









lemma isspace_dq [simp]: "\<not> isspace dq"
  by (simp add: isspace_def dq_def)


lemma fill_no_quote [simp]: "dq \<notin> set fill"
  by (simp add: fill_def dq_def)


















text \<open>
  C4. The claim: \<open>extract_args\<close> returns a token list on every string, and the
  sentinel cannot collide with a word of the input. The sentinel is the fixed text
  \<open>$^$$^$\<close>; a line that is this word has no quoted span, so \<open>b_args\<close> is empty and
  \<open>b_args[0]\<close> raises \<open>IndexError\<close>.
\<close>

theorem extract_args_sentinel_word:
  "extract_args (py ''$^$$^$'') = Inl IndexError"
  by (simp add: tokenizer_defs)

section \<open>Declaring arguments\<close>

lemma add_argument_eq:
  "nm \<noteq> [] \<Longrightarrow>
   add_argument nm args kw self =
     Inr (self\<lparr>arguments :=
            AList.update (bare_name nm) (option_strings nm args, kw) (arguments self)\<rparr>)"
  by (cases nm) (simp_all add: add_argument_def bare_name_def option_strings_def Let_def)

lemma add_argument_raises:
  "add_argument nm args kw self = Inl ex \<longleftrightarrow> nm = [] \<and> ex = IndexError"
  by (auto simp: add_argument_def Let_def split: list.splits)

section \<open>Registration\<close>

lemma add_arguments_never_raises:
  "(\<And>q c. raises ap q c = None) \<Longrightarrow>
   add_arguments ap p specs = (p @ map (\<lambda>(args, kw). Add_argument args kw) specs, None)"
  by (induction ap p specs rule: add_arguments.induct) auto

text \<open>
  When no call of the library raises, \<open>add_command\<close> hands the arguments to the new
  parser in the order of their keys and appends the command.
\<close>

lemma add_command_calls:
  assumes "\<And>q c. raises ap q c = None" and "func cmd \<noteq> None"
  shows "add_command ap self cmd =
           (self\<lparr>parser := parser self
                     @ Add_parser (name cmd) (name cmd) (help_text cmd)
                       # map (\<lambda>(args, kw). Add_argument args kw) (map snd (arguments cmd))
                     @ [Set_defaults cmd],
                  commands := commands self @ [cmd]\<rparr>, None)"
  using assms by (simp add: add_command_def add_arguments_never_raises)

text \<open>The example command is what the two declarations of the docstring build.\<close>

lemma example_add_built:
  "add_argument (py ''a'') [] (kw_int ''1st arg'')
     (QRCommand (py ''add'') (Some add_func) (Some (py ''sum 2 integers''))) = Inr c1 \<Longrightarrow>
   add_argument (py ''b'') [] (kw_int ''2nd arg'') c1 = Inr example_add"
  by (auto simp: add_argument_def QRCommand_def example_add_def dash_def)

lemma example_console_eq:
  "example_console throw =
     \<lparr>parser = [Add_parser (py ''add'') (py ''add'') (Some (py ''sum 2 integers'')),
                Add_argument [py ''a''] (kw_int ''1st arg''),
                Add_argument [py ''b''] (kw_int ''2nd arg''),
                Set_defaults example_add,
                Add_parser (py ''quit'') (py ''quit'') None,
                Set_defaults example_quit],
      commands = [example_add, example_quit],
      hello = Some (py ''hello''), throw_errors = throw\<rparr>"
  by (simp add: example_console_def add_command_def QRConsole_def sample_argparse_def
      example_add_def example_quit_def QRCommand_def)

section \<open>The loop\<close>


text \<open>\<open>run\<close> returns only when an exception leaves some call of \<open>__read_line\<close>.\<close>

lemma run_returns_raise:
  assumes "run ap self stdin n acc = Some y"
  shows "\<exists>k\<ge>n. snd (read_line ap self (stdin k)) \<noteq> None"
proof (rule run.raw_induct
    [where P = "\<lambda>ap self stdin n acc y. \<exists>k\<ge>n. snd (read_line ap self (stdin k)) \<noteq> None",
     OF _ assms], goal_cases)
  case (1 f ap self stdin n acc y)
  obtain out r where rl: "read_line ap self (stdin n) = (out, r)"
    by (cases "read_line ap self (stdin n)")
  show ?case
  proof (cases r)
    case None
    with 1(2) rl have "f ap self stdin (Suc n) (acc @ out) = Some y"
      by simp
    from 1(1)[OF this] obtain k where "Suc n \<le> k" "snd (read_line ap self (stdin k)) \<noteq> None"
      by blast
    then have "n \<le> k \<and> snd (read_line ap self (stdin k)) \<noteq> None"
      by simp
    then show ?thesis ..
  next
    case (Some ex)
    with rl have "n \<le> n \<and> snd (read_line ap self (stdin n)) \<noteq> None"
      by simp
    then show ?thesis ..
  qed
qed

lemma run_never_returns:
  assumes "\<forall>k\<ge>n. snd (read_line ap self (stdin k)) = None"
  shows "run ap self stdin n acc = None"
proof (cases "run ap self stdin n acc")
  case None
  then show ?thesis .
next
  case (Some y)
  from run_returns_raise[OF this] obtain k
    where "n \<le> k" and "snd (read_line ap self (stdin k)) \<noteq> None"
    by auto
  with assms show ?thesis
    by simp
qed

lemma run_raise:
  "read_line ap self (stdin n) = (out, Some ex) \<Longrightarrow>
   run ap self stdin n acc = Some (acc @ out, ex)"
  by (subst run.simps) simp

lemma run_continue:
  "read_line ap self (stdin n) = (out, None) \<Longrightarrow>
   run ap self stdin n acc = run ap self stdin (Suc n) (acc @ out)"
  by (subst run.simps) simp

section \<open>Claims on the declaration of arguments\<close>

text \<open>
  C9. An optional argument declared by a name with one or two leading dashes is stored
  with both forms of its bare name \<open>b\<close>: after the declared name, the list of option
  strings holds the short form \<open>-b\<close> and the long form \<open>--b\<close>, so the form that was
  not declared is derived by adding or by removing the second dash. These are the
  option strings that \<open>add_command\<close> hands to the parser.
\<close>

theorem add_argument_derives_other_form:
  assumes "nm = dash # b \<and> take 1 b \<noteq> [dash] \<or> nm = dash # dash # b"
  shows "add_argument nm args kw self =
           Inr (self\<lparr>arguments :=
                  AList.update b (nm # (dash # b) # (dash # dash # b) # args, kw)
                    (arguments self)\<rparr>) \<and>
         set [dash # b, dash # dash # b] \<subseteq> set (nm # (dash # b) # (dash # dash # b) # args)"
  using assms by (auto simp: add_argument_def Let_def take_Suc split: list.splits)

text \<open>The declarations \<open>add_argument('-a')\<close> and \<open>add_argument('--value', '-v')\<close>.\<close>

theorem add_argument_derives_other_form_witness:
  "add_argument (py ''-a'') [] [] (QRCommand (py ''sub'') None None) =
     Inr \<lparr>name = py ''sub'', help_text = None,
          arguments = [(py ''a'', [py ''-a'', py ''-a'', py ''--a''], [])], func = None\<rparr> \<and>
   add_argument (py ''--value'') [py ''-v''] [] (QRCommand (py ''sub'') None None) =
     Inr \<lparr>name = py ''sub'', help_text = None,
          arguments = [(py ''value'', [py ''--value'', py ''-value'', py ''--value'', py ''-v''], [])],
          func = None\<rparr>"
  using add_argument_derives_other_form [where nm = "py ''-a''" and b = "py ''a''" and args = "[]"
      and kw = "[]" and self = "QRCommand (py ''sub'') None None"]
    add_argument_derives_other_form [where nm = "py ''--value''" and b = "py ''value''"
      and args = "[py ''-v'']" and kw = "[]" and self = "QRCommand (py ''sub'') None None"]
  by (simp add: dash_def QRCommand_def)

text \<open>
  C10. \<open>add_argument\<close> on a name that is not empty never fails and returns the
  command it was called on, with its name, help and handler as they were, so that
  calls chain. The arguments are keyed by the bare name and kept in the order of
  their first declaration: a bare name that is new is appended, and a bare name that
  is already a key keeps its place and has its earlier entry replaced by the new one,
  whatever form it was declared in. No other entry changes, and the keys stay
  distinct.
\<close>

theorem add_argument_keyed_by_bare_name:
  assumes "nm \<noteq> []"
  shows "case add_argument nm args kw self of
           Inl ex \<Rightarrow> False
         | Inr self' \<Rightarrow>
             name self' = name self \<and> help_text self' = help_text self \<and> func self' = func self \<and>
             map_of (arguments self') (bare_name nm) = Some (option_strings nm args, kw) \<and>
             map fst (arguments self') =
               (if bare_name nm \<in> set (map fst (arguments self)) then map fst (arguments self)
                else map fst (arguments self) @ [bare_name nm]) \<and>
             (\<forall>k. k \<noteq> bare_name nm \<longrightarrow> map_of (arguments self') k = map_of (arguments self) k) \<and>
             (distinct (map fst (arguments self)) \<longrightarrow> distinct (map fst (arguments self')))"
  using assms
  by (simp add: add_argument_eq update_keys update_conv' distinct_update del: set_map)

text \<open>The declaration of \<open>x\<close> after \<open>-x\<close> replaces the entry of \<open>-x\<close>.\<close>

theorem add_argument_keyed_by_bare_name_witness:
  "add_argument (py ''-x'') [] [(py ''help'', PStr (py ''first''))] (QRCommand (py ''c'') None None) =
     Inr \<lparr>name = py ''c'', help_text = None,
          arguments = [(py ''x'', [py ''-x'', py ''-x'', py ''--x''], [(py ''help'', PStr (py ''first''))])],
          func = None\<rparr> \<and>
   add_argument (py ''x'') [] []
     \<lparr>name = py ''c'', help_text = None,
      arguments = [(py ''x'', [py ''-x'', py ''-x'', py ''--x''], [(py ''help'', PStr (py ''first''))])],
      func = None\<rparr> =
     Inr \<lparr>name = py ''c'', help_text = None, arguments = [(py ''x'', [py ''x''], [])],
          func = None\<rparr>"
  using add_argument_keyed_by_bare_name [where nm = "py ''-x''" and args = "[]"
      and kw = "[(py ''help'', PStr (py ''first''))]" and self = "QRCommand (py ''c'') None None"]
    add_argument_keyed_by_bare_name [where nm = "py ''x''" and args = "[]" and kw = "[]" and self =
      "\<lparr>name = py ''c'', help_text = None,
      arguments = [(py ''x'', [py ''-x'', py ''-x'', py ''--x''], [(py ''help'', PStr (py ''first''))])],
      func = None\<rparr>"]
  by (simp add: add_argument_def dash_def QRCommand_def Let_def)

section \<open>Claims on registration\<close>

text \<open>
  C6. \<open>add_command\<close> on a command without a handler raises
  \<open>Exception("command '<name>' has no function set!")\<close>, the exception of the
  registration, and leaves the console as it was: the parser, the list of commands
  and every command in it.
\<close>

theorem add_command_without_handler:
  assumes "func cmd = None"
  shows "add_command ap self cmd = (self, Some (Exception (no_function_set (name cmd))))"
  using assms by (simp add: add_command_def)

theorem add_command_without_handler_witness:
  "func (QRCommand (py ''add'') None None) = None \<and>
   add_command sample_argparse (example_console False) (QRCommand (py ''add'') None None) =
     (example_console False, Some (Exception (py ''command 'add' has no function set!'')))"
  using add_command_without_handler [where cmd = "QRCommand (py ''add'') None None"
      and ap = sample_argparse and self = "example_console False"]
  by (simp add: QRCommand_def no_function_set_def)

text \<open>
  C5, as the code has it. \<open>add_command\<close> does not look for the name among the
  commands: with a handler set it fails only when a call of the library raises. For
  a command \<open>cmd\<close> whose name is that of a registered command \<open>c0\<close>: if a call
  raises, the list of commands is unchanged, and if none does, \<open>cmd\<close> is appended;
  either way \<open>c0\<close> stays in the list with its handler and arguments; and when the
  library accepts every call, as the \<open>add_parser\<close> before Python 3.11 does, the
  registration succeeds.
\<close>

theorem add_command_duplicate_name:
  assumes "c0 \<in> set (commands self)" and "name cmd = name c0" and "func cmd \<noteq> None"
  shows "commands (fst (add_command ap self cmd)) =
           (if snd (add_command ap self cmd) = None then commands self @ [cmd] else commands self) \<and>
         c0 \<in> set (commands (fst (add_command ap self cmd))) \<and>
         ((\<forall>p c. raises ap p c = None) \<longrightarrow> snd (add_command ap self cmd) = None)"
  using assms
  by (auto simp: add_command_def Let_def add_arguments_never_raises split: option.splits prod.splits)

text \<open>
  A second command named \<open>add\<close>: refused by the library that checks the name, with the
  commands unchanged, and accepted by the one that does not.
\<close>

theorem add_command_duplicate_name_witness:
  "example_add \<in> set (commands (example_console False)) \<and>
   name example_add2 = name example_add \<and> func example_add2 \<noteq> None \<and>
   add_command checking_argparse (example_console False) example_add2 =
     ((example_console False)
        \<lparr>parser := parser (example_console False) @ [Add_parser (py ''add'') (py ''add'') None]\<rparr>,
      Some (ArgumentError (py ''conflicting subparser: add''))) \<and>
   commands (fst (add_command checking_argparse (example_console False) example_add2)) =
     [example_add, example_quit] \<and>
   commands (fst (add_command sample_argparse (example_console False) example_add2)) =
     [example_add, example_quit, example_add2]"
  using add_command_duplicate_name [where ?c0.0 = example_add and self = "example_console False"
      and cmd = example_add2 and ap = checking_argparse]
    add_command_duplicate_name [where ?c0.0 = example_add and self = "example_console False"
      and cmd = example_add2 and ap = sample_argparse]
  by (simp add: example_console_eq example_add2_def example_add_def QRCommand_def
      checking_argparse_def sample_argparse_def add_command_def)

text \<open>
  C5 as claimed, that a second command of a registered name fails, does not hold:
  with a library that does not check the name the call returns normally and the list
  holds two commands named \<open>add\<close>.
\<close>

theorem add_command_duplicate_accepted:
  "map name (commands (example_console False)) = [py ''add'', py ''quit''] \<and>
   name example_add2 = py ''add'' \<and>
   snd (add_command sample_argparse (example_console False) example_add2) = None \<and>
   map name (commands (fst (add_command sample_argparse (example_console False) example_add2))) =
     [py ''add'', py ''quit'', py ''add'']"
  by (simp add: example_console_eq example_add2_def example_add_def example_quit_def QRCommand_def
      sample_argparse_def add_command_def)

section \<open>Claims on dispatch\<close>

text \<open>
  The three ways in which an exception leaves the body of \<open>__read_line\<close> on a line
  that was read: from the tokenizer, from the parser, and from the handler.
\<close>

lemma read_line_try_parse_error:
  assumes "extract_args line = Inr s" and "parse_args ap (parser self) s = (helps, Inl ex)"
  shows "read_line_try ap self (Some line) =
           (Prompt # map Help helps, Some (help_request s), Some ex)"
  using assms by (simp add: read_line_try_def)

lemma read_line_try_handler:
  assumes "extract_args line = Inr s" and "parse_args ap (parser self) s = (helps, Inr args)"
    and "ns_func args = Some cmd" and "\<not> help_request s" and "call_func cmd args = (out, r)"
  shows "read_line_try ap self (Some line) = (Prompt # map Help helps @ out, Some False, r)"
  using assms by (simp add: read_line_try_def)

lemma read_line_try_tokenizer_error:
  assumes "extract_args line = Inl ex"
  shows "read_line_try ap self (Some line) = ([Prompt], None, Some ex)"
  using assms by (simp add: read_line_try_def)

text \<open>The lines of the examples, tokenized and dispatched.\<close>

lemma tok_add_h: "extract_args (py ''add -h'') = Inr [py ''add'', py ''-h'']"
  by (simp add: tokenizer_defs)

lemma tok_frob_h: "extract_args (py ''frobnicate -h'') = Inr [py ''frobnicate'', py ''-h'']"
  by (simp add: tokenizer_defs)

lemma tok_frob: "extract_args (py ''frobnicate'') = Inr [py ''frobnicate'']"
  by (simp add: tokenizer_defs)


lemma tok_quit: "extract_args (py ''quit'') = Inr [py ''quit'']"
  by (simp add: tokenizer_defs)


lemma try_add_h:
  "read_line_try sample_argparse self (Some (py ''add -h'')) =
     ([Prompt, Help (Sub_parser (py ''add''))], Some True, Some required_a_b)"
  by (simp add: read_line_try_def tok_add_h [simplified] help_request_def sample_argparse_def sample_parse_def)

lemma try_frob_h:
  "read_line_try sample_argparse self (Some (py ''frobnicate -h'')) =
     ([Prompt], Some True, Some (invalid_choice (py ''frobnicate'')))"
  by (simp add: read_line_try_def tok_frob_h [simplified] help_request_def sample_argparse_def sample_parse_def)

lemma try_frob:
  "read_line_try sample_argparse self (Some (py ''frobnicate'')) =
     ([Prompt], Some False, Some (invalid_choice (py ''frobnicate'')))"
  by (simp add: read_line_try_def tok_frob [simplified] help_request_def sample_argparse_def sample_parse_def)



lemma try_quit:
  "read_line_try sample_argparse self (Some (py ''quit'')) =
     ([Prompt, Invoke (py ''quit'') []], Some False, Some (SystemExit 0))"
  by (simp add: read_line_try_def tok_quit [simplified] help_request_def sample_argparse_def sample_parse_def
      call_func_def example_quit_def QRCommand_def)


lemma read_line_eof:
  "read_line ap self None =
     ([Prompt, Error EOFError, Reset], if throw_errors self then Some (SystemExit 1) else None)"
  by (simp add: read_line_def read_line_try_def)

text \<open>
  C1, as the code has it. On a line whose tokens contain \<open>-h\<close> or \<open>--help\<close>,
  \<open>__read_line\<close> calls no handler and prints no error: after the prompt, its only
  effects are the helps that the parser printed, one for every parser that met the
  option, in that order. It returns normally whether the parser raised an
  \<open>Exception\<close> or not; only an exception of the parser that is no \<open>Exception\<close>
  leaves it.
\<close>

theorem help_request_invokes_no_handler:
  assumes "extract_args line = Inr s" and "help_request s"
    and "parse_args ap (parser self) s = (helps, r)"
  shows "read_line ap self (Some line) =
           (Prompt # map Help helps,
            case r of Inl ex \<Rightarrow> if is_Exception ex then None else Some ex | Inr args \<Rightarrow> None) \<and>
         (\<forall>nm vals. Invoke nm vals \<notin> set (fst (read_line ap self (Some line)))) \<and>
         (\<forall>ex. Error ex \<notin> set (fst (read_line ap self (Some line))))"
proof -
  from assms have "read_line ap self (Some line) =
      (Prompt # map Help helps,
       case r of Inl ex \<Rightarrow> if is_Exception ex then None else Some ex | Inr args \<Rightarrow> None)"
    by (cases r) (auto simp: read_line_def read_line_try_def split: option.splits)
  then show ?thesis
    by auto
qed

text \<open>The line \<open>add -h\<close> prints the help of \<open>add\<close> and nothing else.\<close>

theorem help_request_invokes_no_handler_witness:
  "extract_args (py ''add -h'') = Inr [py ''add'', py ''-h''] \<and>
   help_request [py ''add'', py ''-h''] \<and>
   parse_args sample_argparse (parser (example_console False)) [py ''add'', py ''-h''] =
     ([Sub_parser (py ''add'')], Inl required_a_b) \<and>
   read_line sample_argparse (example_console False) (Some (py ''add -h'')) =
     ([Prompt, Help (Sub_parser (py ''add''))], None)"
  using help_request_invokes_no_handler [where line = "py ''add -h''" and s = "[py ''add'', py ''-h'']"
      and ap = sample_argparse and self = "example_console False"
      and helps = "[Sub_parser (py ''add'')]" and r = "Inl required_a_b"]
  by (simp add: tok_add_h [simplified] help_request_def sample_argparse_def sample_parse_def
      required_a_b_def)

text \<open>
  C1 as claimed, that some help is printed on every such line, does not hold: on
  \<open>frobnicate -h\<close> the parser raises on the unknown command before it meets the
  option, the exception is dropped because the line asks for help, and nothing but
  the prompt is written.
\<close>

theorem help_request_without_help:
  "extract_args (py ''frobnicate -h'') = Inr [py ''frobnicate'', py ''-h''] \<and>
   help_request [py ''frobnicate'', py ''-h''] \<and>
   read_line sample_argparse (example_console False) (Some (py ''frobnicate -h'')) = ([Prompt], None)"
  by (simp add: tok_frob_h [simplified] help_request_def read_line_def try_frob_h [simplified]
      invalid_choice_def)

text \<open>
  C2, as the code has it. When \<open>throw_errors\<close> is off, every exception that leaves
  the body of \<open>__read_line\<close> and is an \<open>Exception\<close> is caught: \<open>__read_line\<close>
  returns normally and \<open>run\<close> goes on with the next read. The exception is printed,
  followed by the reset of the style, unless the tokens of the line contain \<open>-h\<close> or
  \<open>--help\<close>; then it is dropped without a message.
\<close>

theorem report_mode_catches_exceptions:
  assumes "\<not> throw_errors self" and "read_line_try ap self (stdin n) = (out, h, Some ex)"
    and "is_Exception ex"
  shows "read_line ap self (stdin n) =
           (out @ (if h = Some True then [] else [Error ex, Reset]), None) \<and>
         run ap self stdin n acc =
           run ap self stdin (Suc n) (acc @ out @ (if h = Some True then [] else [Error ex, Reset]))"
proof -
  from assms have "read_line ap self (stdin n) =
      (out @ (if h = Some True then [] else [Error ex, Reset]), None)"
    by (simp add: read_line_def)
  then show ?thesis
    by (simp add: run_continue)
qed

text \<open>
  The unknown command \<open>frobnicate\<close>: the error of the parser, which names the token, is
  printed, and the loop reads on.
\<close>

theorem report_mode_catches_exceptions_witness:
  "\<not> throw_errors (example_console False) \<and>
   read_line_try sample_argparse (example_console False) (once_stdin (py ''frobnicate'') 0) =
     ([Prompt], Some False, Some (invalid_choice (py ''frobnicate''))) \<and>
   is_Exception (invalid_choice (py ''frobnicate'')) \<and>
   read_line sample_argparse (example_console False) (once_stdin (py ''frobnicate'') 0) =
     ([Prompt, Error (invalid_choice (py ''frobnicate'')), Reset], None) \<and>
   run sample_argparse (example_console False) (once_stdin (py ''frobnicate'')) 0 [] =
     run sample_argparse (example_console False) (once_stdin (py ''frobnicate'')) (Suc 0)
       [Prompt, Error (invalid_choice (py ''frobnicate'')), Reset]"
  using report_mode_catches_exceptions [where self = "example_console False" and ap = sample_argparse
      and stdin = "once_stdin (py ''frobnicate'')" and n = 0 and out = "[Prompt]" and h = "Some False"
      and ex = "invalid_choice (py ''frobnicate'')" and acc = "[]"]
  by (simp add: once_stdin_def try_frob [simplified] example_console_eq invalid_choice_def)

text \<open>
  C2 as claimed, that every failure is reported and the loop reads the next line, does
  not hold: the error on \<open>frobnicate -h\<close> is not reported, and the \<open>SystemExit\<close>
  raised by the handler of \<open>quit\<close> is not caught and ends \<open>run\<close>.
\<close>

theorem report_mode_silent_or_escaping:
  "read_line_try sample_argparse (example_console False) (Some (py ''frobnicate -h'')) =
     ([Prompt], Some True, Some (invalid_choice (py ''frobnicate''))) \<and>
   fst (read_line sample_argparse (example_console False) (Some (py ''frobnicate -h''))) = [Prompt] \<and>
   read_line sample_argparse (example_console False) (Some (py ''quit'')) =
     ([Prompt, Invoke (py ''quit'') []], Some (SystemExit 0)) \<and>
   run sample_argparse (example_console False) (repeat_stdin (py ''quit'')) 0 [] =
     Some ([Prompt, Invoke (py ''quit'') []], SystemExit 0)"
proof -
  have 2: "read_line sample_argparse (example_console False) (repeat_stdin (py ''quit'') 0) =
     ([Prompt, Invoke (py ''quit'') []], Some (SystemExit 0))"
    by (simp add: read_line_def try_quit [simplified] repeat_stdin_def)
  have 3: "fst (read_line sample_argparse (example_console False) (Some (py ''frobnicate -h''))) = [Prompt]"
    by (simp add: read_line_def try_frob_h [simplified] invalid_choice_def)
  from 2 have 4: "run sample_argparse (example_console False) (repeat_stdin (py ''quit'')) 0 [] =
     Some ([Prompt, Invoke (py ''quit'') []], SystemExit 0)"
    using run_raise [where stdin = "repeat_stdin (py ''quit'')" and n = 0 and acc = "[]"]
    by simp
  from 2 have 5: "read_line sample_argparse (example_console False) (Some (py ''quit'')) =
     ([Prompt, Invoke (py ''quit'') []], Some (SystemExit 0))"
    by (simp add: repeat_stdin_def)
  show ?thesis
    using try_frob_h 3 4 5 by simp
qed

section \<open>Claims on the loop\<close>

text \<open>
  C7, as the code has it. At the end of the input \<open>input\<close> raises \<open>EOFError\<close>, which
  is caught and printed as any other exception. With \<open>throw_errors\<close> on, \<open>run\<close>
  ends there with \<open>SystemExit(1)\<close>; with \<open>throw_errors\<close> off it calls \<open>__read_line\<close>
  again, meets the end of the input again, and never returns.
\<close>

theorem end_of_input:
  assumes "\<forall>k\<ge>n. stdin k = None"
  shows "run ap self stdin n acc =
           (if throw_errors self
            then Some (acc @ [Prompt, Error EOFError, Reset], SystemExit 1) else None)"
proof (cases "throw_errors self")
  case True
  from assms have "stdin n = None"
    by simp
  with True have "read_line ap self (stdin n) = ([Prompt, Error EOFError, Reset], Some (SystemExit 1))"
    by (simp add: read_line_eof)
  from run_raise [where stdin = stdin and n = n, OF this] True show ?thesis
    by simp
next
  case False
  with assms have "\<forall>k\<ge>n. snd (read_line ap self (stdin k)) = None"
    by (simp add: read_line_eof)
  from run_never_returns [where stdin = stdin and n = n, OF this] False show ?thesis
    by simp
qed

theorem end_of_input_witness:
  "eof_stdin 0 = None \<and>
   run sample_argparse (example_console True) eof_stdin 0 [] =
     Some ([Prompt, Error EOFError, Reset], SystemExit 1) \<and>
   run sample_argparse (example_console False) eof_stdin 0 [Print (py ''hello'')] = None"
  using end_of_input [where stdin = eof_stdin and n = 0 and ap = sample_argparse
      and self = "example_console True" and acc = "[]"]
    end_of_input [where stdin = eof_stdin and n = 0 and ap = sample_argparse
      and self = "example_console False" and acc = "[Print (py ''hello'')]"]
  by (simp add: eof_stdin_def example_console_eq)

text \<open>
  C7 as claimed, that the loop terminates at the end of the input, does not hold when
  \<open>throw_errors\<close> is off: \<open>run\<close> never returns.
\<close>

theorem end_of_input_loops:
  "throw_errors (example_console False) = False \<and>
   read_line sample_argparse (example_console False) (eof_stdin 0) =
     ([Prompt, Error EOFError, Reset], None) \<and>
   run sample_argparse (example_console False) eof_stdin 0 [] = None"
proof -
  have 1: "throw_errors (example_console False) = False"
    by (simp add: example_console_eq)
  then have 2: "read_line sample_argparse (example_console False) (eof_stdin 0) =
      ([Prompt, Error EOFError, Reset], None)"
    by (simp add: eof_stdin_def read_line_eof)
  from 1 have "\<forall>k\<ge>0. snd (read_line sample_argparse (example_console False) (eof_stdin k)) = None"
    by (simp add: eof_stdin_def read_line_eof)
  from run_never_returns [where stdin = eof_stdin and n = 0, OF this]
  have "run sample_argparse (example_console False) eof_stdin 0 [] = None" .
  with 1 2 show ?thesis
    by (intro conjI)
qed




end
